theory Spec2Isabelle
  imports Complex_Main
begin

section \<open>The WebSocket client of backpack\_exchange\_sdk/websocket.py\<close>

text \<open>
  The class \<^verbatim>\<open>WebSocketClient\<close> keeps a table of callbacks per stream name, owns one
  \<^verbatim>\<open>WebSocketApp\<close> at a time, and reacts to the events of that application object.
  The object becomes a record that every method takes and returns; what a method does to
  the outside (text handed to the transport, seconds slept, lines printed, handlers
  called) is appended to a log kept in the same record. A method that can raise returns
  the exception next to the record, because Python keeps every mutation made before the
  raise.
\<close>

subsection \<open>Values: decoded JSON, exceptions, handlers\<close>

text \<open>
  What \<^verbatim>\<open>json.loads\<close> returns: \<^verbatim>\<open>None\<close>, a bool, an int, a float (its exact value), a
  str, a list or a dict (an association list read with \<open>map_of\<close>).
\<close>

datatype json =
    JNull
  | JBool bool
  | JInt int
  | JFloat rat
  | JStr string
  | JArr "json list"
  | JObj "(string \<times> json) list"

text \<open>
  The exceptions the modelled paths can raise. A handler is user code: it may raise a
  subclass of \<^verbatim>\<open>Exception\<close> (\<open>UserException\<close>) or something that only derives from
  \<^verbatim>\<open>BaseException\<close>, such as \<^verbatim>\<open>KeyboardInterrupt\<close> (\<open>UserBaseException\<close>); the
  clause \<^verbatim>\<open>except Exception\<close> catches the first kind only.
\<close>

datatype exn =
    JSONDecodeError
  | AttributeError
  | TypeError
  | KeyError string
  | WebSocketConnectionClosedException
  | UserException string
  | UserBaseException string

fun is_Exception :: "exn \<Rightarrow> bool" where
  "is_Exception (UserBaseException _) = False"
| "is_Exception _ = True"

text \<open>
  A handler is a callable; it is named by a number, and what calling it on a payload does
  (return or raise) is given by a function \<open>run\<close> that the dispatching code receives.
\<close>

type_synonym handler = nat

datatype outcome = Returns | Raises exn

datatype log_line =
    Error_processing_message exn
  | WebSocket_error string
  | WebSocket_connection_closed
  | WebSocket_connection_established

subsection \<open>The client object\<close>

text \<open>
  \<open>ws\<close>, \<open>api_key\<close>, \<open>secret_key\<close>, \<open>base_url\<close> and \<open>callbacks\<close> are the attributes set by
  \<^verbatim>\<open>__init__\<close>. The other fields are the world as the client sees it: \<open>apps\<close> holds the
  URL of every \<^verbatim>\<open>WebSocketApp\<close> created so far (one thread running \<^verbatim>\<open>run_forever\<close> was
  started for each; an application object is named by its position), \<open>live\<close> the
  applications whose socket is connected, \<open>sent\<close> the texts accepted by
  \<^verbatim>\<open>WebSocketApp.send\<close>, \<open>close_calls\<close> the applications \<^verbatim>\<open>close()\<close> was called on,
  \<open>slept\<close> the arguments of \<^verbatim>\<open>time.sleep\<close>, \<open>printed\<close> the printed lines and \<open>invoked\<close>
  the handler calls, each in order.
\<close>

record client =
  ws :: "nat option"
  api_key :: "string option"
  secret_key :: "string option"
  base_url :: string
  callbacks :: "string \<rightharpoonup> handler list"
  apps :: "string list"
  live :: "nat list"
  sent :: "(nat \<times> string) list"
  close_calls :: "nat list"
  slept :: "nat list"
  printed :: "log_line list"
  invoked :: "(handler \<times> json) list"

subsection \<open>Python primitives\<close>

text \<open>Truth value of an optional string: \<^verbatim>\<open>None\<close> and the empty string are false.\<close>

definition truthy_str :: "string option \<Rightarrow> bool" where
  "truthy_str x = (case x of None \<Rightarrow> False | Some s \<Rightarrow> s \<noteq> [])"

text \<open>Truth value of a decoded JSON value.\<close>

fun truthy :: "json \<Rightarrow> bool" where
  "truthy JNull = False"
| "truthy (JBool b) = b"
| "truthy (JInt i) = (i \<noteq> 0)"
| "truthy (JFloat r) = (r \<noteq> 0)"
| "truthy (JStr s) = (s \<noteq> [])"
| "truthy (JArr xs) = (xs \<noteq> [])"
| "truthy (JObj kvs) = (kvs \<noteq> [])"

text \<open>\<^verbatim>\<open>str\<close> of an int: decimal digits, with a minus sign when negative.\<close>

definition digit_char :: "nat \<Rightarrow> char" where
  "digit_char d = ''0123456789'' ! (d mod 10)"

function str_nat :: "nat \<Rightarrow> string" where
  "str_nat n = (if n < 10 then [digit_char n] else str_nat (n div 10) @ [digit_char (n mod 10)])"
  by pat_completeness auto
termination
  by (relation "measure id") auto

declare str_nat.simps [simp del]

definition str_int :: "int \<Rightarrow> string" where
  "str_int i = (if i < 0 then CHR ''-'' # str_nat (nat (- i)) else str_nat (nat i))"

text \<open>
  \<^verbatim>\<open>d[key]\<close> on a \<^verbatim>\<open>Dict[str, str]\<close>: the value, or \<^verbatim>\<open>KeyError\<close>.
\<close>

definition getitem :: "(string \<times> string) list \<Rightarrow> string \<Rightarrow> exn + string" where
  "getitem d key = (case map_of d key of None \<Rightarrow> Inl (KeyError key) | Some v \<Rightarrow> Inr v)"

text \<open>
  \<^verbatim>\<open>stream in self.callbacks\<close> for a decoded value: hashing a list or a dict raises
  \<^verbatim>\<open>TypeError\<close>; the keys of the table are strings, so no other value than a string is
  found in it.
\<close>

fun contains_key :: "json \<Rightarrow> (string \<rightharpoonup> handler list) \<Rightarrow> exn + bool" where
  "contains_key (JStr s) tbl = Inr (tbl s \<noteq> None)"
| "contains_key (JArr xs) tbl = Inl TypeError"
| "contains_key (JObj kvs) tbl = Inl TypeError"
| "contains_key v tbl = Inr False"

subsection \<open>The transport\<close>

text \<open>
  \<^verbatim>\<open>self.ws.send(text)\<close>. The transport is the websocket-client library, outside this
  repository: \<^verbatim>\<open>WebSocketApp.send\<close> raises \<^verbatim>\<open>WebSocketConnectionClosedException\<close> when
  the application's socket is not connected and hands the text to the socket otherwise.
  \<^verbatim>\<open>self.ws\<close> is \<^verbatim>\<open>None\<close> only before \<^verbatim>\<open>_connect\<close> has run.
\<close>

definition ws_send :: "client \<Rightarrow> string \<Rightarrow> exn option \<times> client" where
  "ws_send self text =
     (case ws self of
        None \<Rightarrow> (Some AttributeError, self)
      | Some w \<Rightarrow>
          if w \<in> set (live self) then (None, self\<lparr>sent := sent self @ [(w, text)]\<rparr>)
          else (Some WebSocketConnectionClosedException, self))"

subsection \<open>\<^verbatim>\<open>_connect\<close> and the event handlers it installs\<close>

text \<open>
  \<^verbatim>\<open>_connect\<close> creates a new \<^verbatim>\<open>WebSocketApp\<close> for \<^verbatim>\<open>self.base_url\<close>, stores it in
  \<^verbatim>\<open>self.ws\<close> and starts its thread. It sends nothing.
\<close>

definition connect :: "client \<Rightarrow> client" where
  "connect self = self\<lparr>ws := Some (length (apps self)), apps := apps self @ [base_url self]\<rparr>"

definition init :: "string option \<Rightarrow> string option \<Rightarrow> client" where
  "init key secret =
     connect \<lparr>ws = None, api_key = key, secret_key = secret,
       base_url = ''wss://ws.backpack.exchange'', callbacks = Map.empty, apps = [],
       live = [], sent = [], close_calls = [], slept = [], printed = [], invoked = []\<rparr>"

text \<open>
  The loop \<^verbatim>\<open>for callback in self.callbacks[stream]: callback(data["data"])\<close>:
  \<^verbatim>\<open>data["data"]\<close> is evaluated before each call and raises \<^verbatim>\<open>KeyError\<close> when the
  object has no such field; the first raise ends the loop. The result is the list of
  calls made and the exception that ended the loop, if any.
\<close>

fun call_all :: "(handler \<Rightarrow> json \<Rightarrow> outcome) \<Rightarrow> (string \<times> json) list \<Rightarrow> handler list
    \<Rightarrow> (handler \<times> json) list \<times> exn option" where
  "call_all run data [] = ([], None)"
| "call_all run data (callback # rest) =
     (case map_of data ''data'' of
        None \<Rightarrow> ([], Some (KeyError ''data''))
      | Some d \<Rightarrow>
          (case run callback d of
             Raises e \<Rightarrow> ([(callback, d)], Some e)
           | Returns \<Rightarrow>
               (case call_all run data rest of (calls, e) \<Rightarrow> ((callback, d) # calls, e))))"

text \<open>
  The body of the \<^verbatim>\<open>try\<close> in \<^verbatim>\<open>on_message\<close>. \<^verbatim>\<open>json.loads\<close> is the library's; it is
  the parameter \<open>loads\<close>, \<open>None\<close> where it raises. \<^verbatim>\<open>data.get\<close> exists on a dict only
  (\<^verbatim>\<open>AttributeError\<close> otherwise) and gives \<^verbatim>\<open>None\<close> for a missing key.
\<close>

definition on_message_body :: "(handler \<Rightarrow> json \<Rightarrow> outcome) \<Rightarrow> (string \<Rightarrow> json option)
    \<Rightarrow> client \<Rightarrow> string \<Rightarrow> (handler \<times> json) list \<times> exn option" where
  "on_message_body run loads self message =
     (case loads message of
        None \<Rightarrow> ([], Some JSONDecodeError)
      | Some (JObj data) \<Rightarrow>
          (let stream = (case map_of data ''stream'' of None \<Rightarrow> JNull | Some v \<Rightarrow> v) in
           if truthy stream then
             (case contains_key stream (callbacks self) of
                Inl e \<Rightarrow> ([], Some e)
              | Inr False \<Rightarrow> ([], None)
              | Inr True \<Rightarrow>
                  (case stream of
                     JStr s \<Rightarrow>
                       (case callbacks self s of
                          Some hs \<Rightarrow> call_all run data hs
                        | None \<Rightarrow> ([], Some (KeyError s)))
                   | _ \<Rightarrow> ([], Some TypeError)))
           else ([], None))
      | Some _ \<Rightarrow> ([], Some AttributeError))"

text \<open>
  \<^verbatim>\<open>on_message\<close>: the body under \<^verbatim>\<open>try\<close>, and \<^verbatim>\<open>except Exception\<close> printing the
  error. The second component is the exception that leaves the callback, if any.
\<close>

definition on_message :: "(handler \<Rightarrow> json \<Rightarrow> outcome) \<Rightarrow> (string \<Rightarrow> json option)
    \<Rightarrow> client \<Rightarrow> string \<Rightarrow> client \<times> exn option" where
  "on_message run loads self message =
     (case on_message_body run loads self message of
        (calls, None) \<Rightarrow> (self\<lparr>invoked := invoked self @ calls\<rparr>, None)
      | (calls, Some e) \<Rightarrow>
          if is_Exception e then
            (self\<lparr>invoked := invoked self @ calls,
                  printed := printed self @ [Error_processing_message e]\<rparr>, None)
          else (self\<lparr>invoked := invoked self @ calls\<rparr>, Some e))"


text \<open>
  \<^verbatim>\<open>on_close\<close>: print, \<^verbatim>\<open>time.sleep(5)\<close>, \<^verbatim>\<open>self._connect()\<close>. It reads neither its
  arguments nor any flag of the client.
\<close>

definition on_close :: "client \<Rightarrow> nat \<Rightarrow> int option \<Rightarrow> string option \<Rightarrow> client" where
  "on_close self app close_status_code close_msg =
     connect (self\<lparr>printed := printed self @ [WebSocket_connection_closed],
                   slept := slept self @ [5]\<rparr>)"

definition on_open :: "client \<Rightarrow> nat \<Rightarrow> client" where
  "on_open self app = self\<lparr>printed := printed self @ [WebSocket_connection_established]\<rparr>"

subsection \<open>The signer\<close>

text \<open>
  The attribute lookup \<^verbatim>\<open>self._sign_message\<close>. The class has no base class, and neither
  its body nor \<^verbatim>\<open>__init__\<close> defines \<^verbatim>\<open>_sign_message\<close>; the only occurrence of the name
  is the call in \<^verbatim>\<open>_generate_signature\<close>. The lookup therefore raises
  \<^verbatim>\<open>AttributeError\<close> on every client.
\<close>

definition lookup_sign_message :: "client \<Rightarrow> exn + (string \<Rightarrow> string)" where
  "lookup_sign_message self = Inl AttributeError"

text \<open>
  \<^verbatim>\<open>_generate_signature\<close>: the empty dict when a key is missing; otherwise the string to
  sign is built, \<^verbatim>\<open>self._sign_message\<close> is looked up and called, and the dict of four
  entries is returned, in insertion order. An exception raised on the way is the
  \<open>Inl\<close> result.
\<close>

definition generate_signature :: "client \<Rightarrow> string list \<Rightarrow> int \<Rightarrow> int
    \<Rightarrow> exn + (string \<times> string) list" where
  "generate_signature self streams timestamp window =
     (if \<not> truthy_str (api_key self) \<or> \<not> truthy_str (secret_key self) then Inr []
      else
        (let sign_str = ''instruction=subscribe&timestamp='' @ str_int timestamp
               @ ''&window='' @ str_int window
         in case lookup_sign_message self of
              Inl e \<Rightarrow> Inl e
            | Inr sign_message \<Rightarrow>
                (let signature = sign_message sign_str
                 in Inr [(''api-key'', case api_key self of Some k \<Rightarrow> k | None \<Rightarrow> []),
                         (''signature'', signature),
                         (''timestamp'', str_int timestamp),
                         (''window'', str_int window)])))"

subsection \<open>\<^verbatim>\<open>subscribe\<close>, \<^verbatim>\<open>unsubscribe\<close>, \<^verbatim>\<open>close\<close>\<close>

text \<open>
  One round of the first loop of \<^verbatim>\<open>subscribe\<close>: create the list if the stream has none,
  then append the callback.
\<close>

definition register :: "handler \<Rightarrow> string \<Rightarrow> (string \<rightharpoonup> handler list)
    \<Rightarrow> (string \<rightharpoonup> handler list)" where
  "register callback stream tbl =
     (case tbl stream of
        None \<Rightarrow> tbl(stream \<mapsto> [callback])
      | Some hs \<Rightarrow> tbl(stream \<mapsto> hs @ [callback]))"

text \<open>
  \<^verbatim>\<open>subscribe\<close>: register, build the message, add the signature list for a private
  subscription (\<^verbatim>\<open>_generate_signature\<close> can raise, and then each \<^verbatim>\<open>auth_data[...]\<close> can
  raise \<^verbatim>\<open>KeyError\<close>, in the order written), send. \<open>dumps\<close> is \<^verbatim>\<open>json.dumps\<close> and
  \<open>now\<close> is \<^verbatim>\<open>int(time.time() * 1000)\<close>.
\<close>

definition subscribe :: "(json \<Rightarrow> string) \<Rightarrow> int \<Rightarrow> client
    \<Rightarrow> string list \<Rightarrow> handler \<Rightarrow> bool \<Rightarrow> exn option \<times> client" where
  "subscribe dumps now self streams callback is_private =
     (let self1 = self\<lparr>callbacks := fold (register callback) streams (callbacks self)\<rparr>;
          subscribe_data = [(''method'', JStr ''SUBSCRIBE''), (''params'', JArr (map JStr streams))]
      in if is_private then
           (case generate_signature self1 streams now 5000 of
              Inl e \<Rightarrow> (Some e, self1)
            | Inr auth_data \<Rightarrow>
            (case getitem auth_data ''api-key'' of
              Inl e \<Rightarrow> (Some e, self1)
            | Inr a \<Rightarrow>
            (case getitem auth_data ''signature'' of
              Inl e \<Rightarrow> (Some e, self1)
            | Inr b \<Rightarrow>
            (case getitem auth_data ''timestamp'' of
              Inl e \<Rightarrow> (Some e, self1)
            | Inr c \<Rightarrow>
            (case getitem auth_data ''window'' of
              Inl e \<Rightarrow> (Some e, self1)
            | Inr d \<Rightarrow>
                ws_send self1 (dumps (JObj (subscribe_data
                  @ [(''signature'', JArr [JStr a, JStr b, JStr c, JStr d])]))))))))
         else ws_send self1 (dumps (JObj subscribe_data)))"

text \<open>
  \<^verbatim>\<open>unsubscribe\<close>: send first; only when the send has returned, delete the entry of each
  listed stream that has one.
\<close>

definition unregister :: "string \<Rightarrow> (string \<rightharpoonup> handler list) \<Rightarrow> (string \<rightharpoonup> handler list)" where
  "unregister stream tbl = (if tbl stream \<noteq> None then tbl(stream := None) else tbl)"

definition unsubscribe :: "(json \<Rightarrow> string) \<Rightarrow> client \<Rightarrow> string list \<Rightarrow> exn option \<times> client" where
  "unsubscribe dumps self streams =
     (let unsubscribe_data = [(''method'', JStr ''UNSUBSCRIBE''), (''params'', JArr (map JStr streams))]
      in case ws_send self (dumps (JObj unsubscribe_data)) of
           (Some e, self1) \<Rightarrow> (Some e, self1)
         | (None, self1) \<Rightarrow>
             (None, self1\<lparr>callbacks := fold unregister streams (callbacks self1)\<rparr>))"

text \<open>
  \<^verbatim>\<open>close\<close>: \<^verbatim>\<open>self.ws.close()\<close> when there is an application object; the library
  closes its socket. No attribute of the client is changed.
\<close>

definition close :: "client \<Rightarrow> client" where
  "close self =
     (case ws self of
        None \<Rightarrow> self
      | Some w \<Rightarrow> self\<lparr>close_calls := close_calls self @ [w], live := removeAll w (live self)\<rparr>)"

subsection \<open>Notions used by the statements\<close>

text \<open>Credentials are configured when both keys are present and non-empty.\<close>

definition has_credentials :: "client \<Rightarrow> bool" where
  "has_credentials self = (truthy_str (api_key self) \<and> truthy_str (secret_key self))"

text \<open>
  A frame that cannot be routed: it does not decode, it decodes to something that is not
  an object, the object has no \<^verbatim>\<open>stream\<close> field, or the value of the field is not a
  stream with an entry in the table.
\<close>

definition unroutable :: "(string \<Rightarrow> json option) \<Rightarrow> client \<Rightarrow> string \<Rightarrow> bool" where
  "unroutable loads self message =
     (case loads message of
        None \<Rightarrow> True
      | Some (JObj data) \<Rightarrow>
          (case map_of data ''stream'' of
             None \<Rightarrow> True
           | Some (JStr s) \<Rightarrow> callbacks self s = None
           | Some _ \<Rightarrow> True)
      | Some _ \<Rightarrow> True)"

text \<open>The handlers registered for a stream, in order; none when it has no entry.\<close>

definition handlers_of :: "client \<Rightarrow> string \<Rightarrow> handler list" where
  "handlers_of self stream = (case callbacks self stream of None \<Rightarrow> [] | Some hs \<Rightarrow> hs)"


subsection \<open>A sample environment\<close>

text \<open>
  Stand-ins for what the client receives from outside, for running the model on concrete
  inputs: a serialiser that keeps only the method name of a message, handlers that all
  return, handlers of which number 1 raises, and a client without credentials whose first
  application object has its socket connected.
\<close>

definition sample_dumps :: "json \<Rightarrow> string" where
  "sample_dumps j =
     (case j of
        JObj kvs \<Rightarrow> (case map_of kvs ''method'' of Some (JStr m) \<Rightarrow> m | _ \<Rightarrow> [])
      | _ \<Rightarrow> [])"

definition all_return :: "handler \<Rightarrow> json \<Rightarrow> outcome" where
  "all_return h d = Returns"

definition first_raises :: "handler \<Rightarrow> json \<Rightarrow> outcome" where
  "first_raises h d = (if h = 1 then Raises (UserException ''boom'') else Returns)"

definition live_client :: client where
  "live_client = (init None None)\<lparr>live := [0]\<rparr>"

section \<open>Properties\<close>

subsection \<open>The callback table under \<^verbatim>\<open>subscribe\<close> and \<^verbatim>\<open>unsubscribe\<close>\<close>

lemma register_apply:
  "register h s tbl x =
     (if x = s then Some ((case tbl s of None \<Rightarrow> [] | Some hs \<Rightarrow> hs) @ [h]) else tbl x)"
  by (simp add: register_def split: option.splits)

lemma fold_register_apply:
  "fold (register h) streams tbl x =
     (if x \<in> set streams
      then Some ((case tbl x of None \<Rightarrow> [] | Some hs \<Rightarrow> hs) @ replicate (count_list streams x) h)
      else tbl x)"
proof (induction streams arbitrary: tbl)
  case Nil
  show ?case by simp
next
  case (Cons s streams)
  have "fold (register h) (s # streams) tbl x = fold (register h) streams (register h s tbl) x"
    by simp
  also have "\<dots> = (if x \<in> set streams
      then Some ((case register h s tbl x of None \<Rightarrow> [] | Some hs \<Rightarrow> hs)
             @ replicate (count_list streams x) h)
      else register h s tbl x)"
    by (rule Cons.IH)
  also have "\<dots> = (if x \<in> set (s # streams)
      then Some ((case tbl x of None \<Rightarrow> [] | Some hs \<Rightarrow> hs)
             @ replicate (count_list (s # streams) x) h)
      else tbl x)"
    by (simp add: register_apply replicate_app_Cons_same)
  finally show ?case .
qed

lemma unregister_apply:
  "unregister s tbl x = (if x = s then None else tbl x)"
  by (simp add: unregister_def)

lemma fold_unregister_apply:
  "fold unregister streams tbl x = (if x \<in> set streams then None else tbl x)"
proof (induction streams arbitrary: tbl)
  case Nil
  show ?case by simp
next
  case (Cons s streams)
  have "fold unregister (s # streams) tbl x = fold unregister streams (unregister s tbl) x"
    by simp
  also have "\<dots> = (if x \<in> set streams then None else unregister s tbl x)"
    by (rule Cons.IH)
  also have "\<dots> = (if x \<in> set (s # streams) then None else tbl x)"
    by (simp add: unregister_apply)
  finally show ?case .
qed

lemma ws_send_frame:
  "callbacks (snd (ws_send self text)) = callbacks self"
  "invoked (snd (ws_send self text)) = invoked self"
  "printed (snd (ws_send self text)) = printed self"
  "apps (snd (ws_send self text)) = apps self"
  "ws (snd (ws_send self text)) = ws self"
  "live (snd (ws_send self text)) = live self"
  "slept (snd (ws_send self text)) = slept self"
  "api_key (snd (ws_send self text)) = api_key self"
  "secret_key (snd (ws_send self text)) = secret_key self"
  by (auto simp: ws_send_def split: option.splits)

text \<open>
  Whatever \<^verbatim>\<open>subscribe\<close> returns or raises, the table it leaves is the one after the
  registration loop, and it calls no handler.
\<close>

lemma subscribe_callbacks:
  "callbacks (snd (subscribe dumps now self streams h p)) = fold (register h) streams (callbacks self)"
  by (auto simp: subscribe_def Let_def ws_send_frame split: sum.splits)

lemma subscribe_invoked:
  "invoked (snd (subscribe dumps now self streams h p)) = invoked self"
  by (auto simp: subscribe_def Let_def ws_send_frame split: sum.splits)

text \<open>
  When the transport refuses the text, \<^verbatim>\<open>unsubscribe\<close> raises before its second loop:
  the client, and with it the table, is as before.
\<close>

lemma unsubscribe_send_refused:
  "ws self = Some w \<Longrightarrow> w \<notin> set (live self) \<Longrightarrow>
   unsubscribe dumps self streams = (Some WebSocketConnectionClosedException, self)"
  by (simp add: unsubscribe_def ws_send_def)

subsection \<open>The dispatch loop\<close>

lemma call_all_returns:
  "map_of data ''data'' = Some d \<Longrightarrow> \<forall>h\<in>set hs. run h d = Returns \<Longrightarrow>
   call_all run data hs = (map (\<lambda>h. (h, d)) hs, None)"
  by (induction hs) auto

lemma call_all_raises:
  "map_of data ''data'' = Some d \<Longrightarrow> \<forall>h\<in>set pre. run h d = Returns \<Longrightarrow> run h d = Raises e \<Longrightarrow>
   call_all run data (pre @ h # post) = (map (\<lambda>h. (h, d)) (pre @ [h]), Some e)"
  by (induction pre) auto

lemma on_message_routed:
  assumes "loads message = Some (JObj data)"
    and "map_of data ''stream'' = Some (JStr s)"
    and "s \<noteq> []"
    and "callbacks self s = Some hs"
  shows "on_message_body run loads self message = call_all run data hs"
  using assms by (simp add: on_message_body_def)

lemma on_message_unroutable:
  assumes "unroutable loads self message"
  shows "on_message_body run loads self message = ([], None)
       \<or> (\<exists>e. on_message_body run loads self message = ([], Some e) \<and> is_Exception e)"
proof (cases "loads message")
  case None
  then show ?thesis by (simp add: on_message_body_def)
next
  case (Some j)
  show ?thesis
  proof (cases j)
    case (JObj data)
    show ?thesis
    proof (cases "map_of data ''stream''")
      case None
      with Some JObj show ?thesis by (simp add: on_message_body_def)
    next
      case (Some v)
      with assms \<open>loads message = Some j\<close> JObj show ?thesis
        by (cases v) (simp_all add: on_message_body_def unroutable_def Let_def)
    qed
  qed (use Some in \<open>simp_all add: on_message_body_def\<close>)
qed

subsection \<open>Reconnection\<close>




text \<open>
  Claim C1, as the code has it. After a connection loss and a reconnect that succeeds, the
  callback table is the one from before the disconnect and \<^verbatim>\<open>self.ws\<close> is the new
  application object, but the client has sent nothing: neither \<^verbatim>\<open>on_close\<close> (with
  \<^verbatim>\<open>_connect\<close>) nor \<^verbatim>\<open>on_open\<close> sends a SUBSCRIBE message, whichever sockets the
  library has connected in between.
\<close>

theorem reconnect_resends_nothing:
  "sent (on_open ((on_close self app code msg)\<lparr>live := l\<rparr>) app') = sent self
   \<and> callbacks (on_open ((on_close self app code msg)\<lparr>live := l\<rparr>) app') = callbacks self
   \<and> ws (on_open ((on_close self app code msg)\<lparr>live := l\<rparr>) app') = Some (length (apps self))"
  by (simp add: on_open_def on_close_def connect_def)

text \<open>
  The claim as stated fails: a client subscribes to one stream on its first application
  object (number 0), that connection closes, the second application object (number 1)
  connects and opens. The table still lists the stream, and the only text ever sent is
  the first SUBSCRIBE, on application 0.
\<close>

theorem reconnect_resends_nothing_counterexample:
  "ws (on_open ((on_close (snd (subscribe sample_dumps 0
          live_client [''bookTicker.SOL_USDC''] 1 False))
        0 None None)\<lparr>live := [1]\<rparr>) 1) = Some 1
   \<and> callbacks (on_open ((on_close (snd (subscribe sample_dumps 0
          live_client [''bookTicker.SOL_USDC''] 1 False))
        0 None None)\<lparr>live := [1]\<rparr>) 1) ''bookTicker.SOL_USDC'' = Some [1]
   \<and> sent (on_open ((on_close (snd (subscribe sample_dumps 0
          live_client [''bookTicker.SOL_USDC''] 1 False))
        0 None None)\<lparr>live := [1]\<rparr>) 1) = [(0, ''SUBSCRIBE'')]"
  by (simp add: on_open_def on_close_def connect_def subscribe_def ws_send_def init_def
      live_client_def register_def sample_dumps_def Let_def)

text \<open>
  Claim C6, as the code has it. The close event that follows \<^verbatim>\<open>close()\<close> is handled
  like any other: \<^verbatim>\<open>on_close\<close> sleeps 5 seconds and calls \<^verbatim>\<open>_connect\<close>, so a new
  application object is created and becomes \<^verbatim>\<open>self.ws\<close>.
\<close>

theorem close_event_after_close_reconnects:
  "apps (on_close (close self) app code msg) = apps self @ [base_url self]
   \<and> ws (on_close (close self) app code msg) = Some (length (apps self))
   \<and> slept (on_close (close self) app code msg) = slept self @ [5]"
  by (simp add: on_close_def connect_def close_def split: option.splits)

text \<open>
  The claim as stated fails: on a connected client, \<^verbatim>\<open>close()\<close> followed by the close
  event of application 0 leaves two application objects, the second one current, after a
  sleep of 5 seconds.
\<close>

theorem close_event_after_close_counterexample:
  "close_calls (on_close (close live_client) 0 None None) = [0]
   \<and> apps (on_close (close live_client) 0 None None)
       = [''wss://ws.backpack.exchange'', ''wss://ws.backpack.exchange'']
   \<and> ws (on_close (close live_client) 0 None None) = Some 1
   \<and> slept (on_close (close live_client) 0 None None) = [5]"
  by (simp add: on_close_def connect_def close_def init_def live_client_def)



subsection \<open>Dispatch\<close>

text \<open>
  Claim C3, as the code has it. For every non-empty stream name A and handlers h1, h2:
  after \<^verbatim>\<open>subscribe([A], h1)\<close> and \<^verbatim>\<open>subscribe([A], h2)\<close>, a frame for A with payload d
  calls the handlers registered for A before, then h1, then h2, each with d and once per
  registration, provided the earlier handlers and h1 return without raising.
\<close>

theorem dispatch_in_registration_order:
  assumes "A \<noteq> []"
    and "loads message = Some (JObj data)"
    and "map_of data ''stream'' = Some (JStr A)"
    and "map_of data ''data'' = Some d"
    and "\<forall>h\<in>set (handlers_of self A). run h d = Returns"
    and "run h1 d = Returns"
  shows "invoked (fst (on_message run loads
            (snd (subscribe dumps now2
               (snd (subscribe dumps now1 self [A] h1 False)) [A] h2 False))
            message))
         = invoked self @ map (\<lambda>h. (h, d)) (handlers_of self A @ [h1, h2])"
proof -
  let ?s1 = "snd (subscribe dumps now1 self [A] h1 False)"
  let ?s2 = "snd (subscribe dumps now2 ?s1 [A] h2 False)"
  let ?pre = "handlers_of self A @ [h1]"
  have c1: "callbacks ?s1 A = Some ?pre"
    by (simp add: subscribe_callbacks register_apply handlers_of_def)
  have c2: "callbacks ?s2 A = Some (?pre @ [h2])"
    by (simp add: subscribe_callbacks [of _ _ ?s1] register_apply c1)
  have inv: "invoked ?s2 = invoked self"
    by (simp add: subscribe_invoked)
  have body: "on_message_body run loads ?s2 message = call_all run data (?pre @ [h2])"
    using assms(1-3) c2 by (simp add: on_message_routed)
  have pre: "\<forall>h\<in>set ?pre. run h d = Returns"
    using assms(5,6) by simp
  have "\<exists>e. call_all run data (?pre @ [h2]) = (map (\<lambda>h. (h, d)) (?pre @ [h2]), e)"
  proof (cases "run h2 d")
    case Returns
    with pre have all: "\<forall>h\<in>set (?pre @ [h2]). run h d = Returns" by simp
    have "call_all run data (?pre @ [h2]) = (map (\<lambda>h. (h, d)) (?pre @ [h2]), None)"
      using assms(4) all by (rule call_all_returns)
    then show ?thesis by blast
  next
    case (Raises e)
    have "call_all run data (?pre @ h2 # []) = (map (\<lambda>h. (h, d)) (?pre @ [h2]), Some e)"
      using assms(4) pre Raises by (rule call_all_raises)
    then show ?thesis by blast
  qed
  then obtain e where
    "on_message_body run loads ?s2 message = (map (\<lambda>h. (h, d)) (?pre @ [h2]), e)"
    using body by auto
  then show ?thesis
    by (cases e) (simp_all add: on_message_def inv)
qed

theorem dispatch_in_registration_order_witness:
  "invoked (fst (on_message all_return
       (map_of [(''frame'', JObj [(''stream'', JStr ''bookTicker.SOL_USDC''),
                                  (''data'', JObj [(''price'', JStr ''100'')])])])
       (snd (subscribe sample_dumps 2
          (snd (subscribe sample_dumps 1 live_client
                 [''bookTicker.SOL_USDC''] 1 False))
          [''bookTicker.SOL_USDC''] 2 False))
       ''frame''))
     = [(1, JObj [(''price'', JStr ''100'')]), (2, JObj [(''price'', JStr ''100'')])]"
proof -
  have h: "handlers_of live_client ''bookTicker.SOL_USDC'' = []"
    and i: "invoked live_client = []"
    by (simp_all add: handlers_of_def live_client_def init_def connect_def)
  show ?thesis
    using dispatch_in_registration_order [where A = "''bookTicker.SOL_USDC''"
        and loads = "map_of [(''frame'', JObj [(''stream'', JStr ''bookTicker.SOL_USDC''),
                                  (''data'', JObj [(''price'', JStr ''100'')])])]"
        and message = "''frame''"
        and data = "[(''stream'', JStr ''bookTicker.SOL_USDC''),
                     (''data'', JObj [(''price'', JStr ''100'')])]"
        and d = "JObj [(''price'', JStr ''100'')]"
        and self = live_client and run = all_return and ?h1.0 = 1 and ?h2.0 = 2
        and dumps = sample_dumps and ?now1.0 = 1 and ?now2.0 = 2]
      h i
    by (simp add: all_return_def)
qed

text \<open>
  The claim as stated fails in two ways. For the empty stream name the test
  \<^verbatim>\<open>if stream and ...\<close> is false, so no handler is called. And when h1 raises, the loop
  ends and h2 is not called.
\<close>

theorem dispatch_in_registration_order_counterexample:
  "invoked (fst (on_message all_return
       (map_of [(''frame'', JObj [(''stream'', JStr ''''), (''data'', JInt 7)])])
       (snd (subscribe sample_dumps 2
          (snd (subscribe sample_dumps 1 live_client [''''] 1 False))
          [''''] 2 False))
       ''frame'')) = []
   \<and> invoked (fst (on_message first_raises
       (map_of [(''frame'', JObj [(''stream'', JStr ''A''), (''data'', JInt 7)])])
       (snd (subscribe sample_dumps 2
          (snd (subscribe sample_dumps 1 live_client [''A''] 1 False))
          [''A''] 2 False))
       ''frame'')) = [(1, JInt 7)]"
  by (simp add: on_message_def on_message_body_def subscribe_def ws_send_def init_def
      live_client_def connect_def register_def first_raises_def all_return_def Let_def)

text \<open>
  Claim C4, as the code has it. On a client whose current application object accepts the
  send, \<^verbatim>\<open>unsubscribe\<close> raises nothing, sends exactly one UNSUBSCRIBE message with the
  listed streams, and then has removed the whole entry of every listed stream and no
  other; a later frame for a listed stream calls no handler and changes nothing; and when
  no listed stream had an entry the table is unchanged.
\<close>

theorem unsubscribe_removes_entries:
  assumes "ws self = Some w" and "w \<in> set (live self)"
  shows "fst (unsubscribe dumps self streams) = None
    \<and> sent (snd (unsubscribe dumps self streams))
        = sent self @ [(w, dumps (JObj [(''method'', JStr ''UNSUBSCRIBE''),
                                        (''params'', JArr (map JStr streams))]))]
    \<and> (\<forall>x\<in>set streams. callbacks (snd (unsubscribe dumps self streams)) x = None)
    \<and> (\<forall>x. x \<notin> set streams \<longrightarrow>
          callbacks (snd (unsubscribe dumps self streams)) x = callbacks self x)
    \<and> (\<forall>message data x.
          loads message = Some (JObj data) \<and> map_of data ''stream'' = Some (JStr x)
            \<and> x \<in> set streams \<longrightarrow>
          on_message run loads (snd (unsubscribe dumps self streams)) message
            = (snd (unsubscribe dumps self streams), None))
    \<and> ((\<forall>x\<in>set streams. callbacks self x = None) \<longrightarrow>
          callbacks (snd (unsubscribe dumps self streams)) = callbacks self)"
proof -
  let ?r = "unsubscribe dumps self streams"
  let ?text = "dumps (JObj [(''method'', JStr ''UNSUBSCRIBE''), (''params'', JArr (map JStr streams))])"
  have r: "?r = (None, self\<lparr>sent := sent self @ [(w, ?text)],
                            callbacks := fold unregister streams (callbacks self)\<rparr>)"
    using assms by (simp add: unsubscribe_def ws_send_def)
  have e: "fst ?r = None" and s: "sent (snd ?r) = sent self @ [(w, ?text)]"
    and c: "callbacks (snd ?r) = fold unregister streams (callbacks self)"
    by (simp_all add: r)
  have gone: "\<forall>x\<in>set streams. callbacks (snd ?r) x = None"
    by (simp add: c fold_unregister_apply)
  have kept: "\<forall>x. x \<notin> set streams \<longrightarrow> callbacks (snd ?r) x = callbacks self x"
    by (simp add: c fold_unregister_apply)
  have quiet: "\<forall>message data x.
      loads message = Some (JObj data) \<and> map_of data ''stream'' = Some (JStr x) \<and> x \<in> set streams
        \<longrightarrow> on_message run loads (snd ?r) message = (snd ?r, None)"
  proof (intro allI impI)
    fix message data x
    assume a: "loads message = Some (JObj data) \<and> map_of data ''stream'' = Some (JStr x)
      \<and> x \<in> set streams"
    then have "callbacks (snd ?r) x = None" using gone by blast
    with a have "on_message_body run loads (snd ?r) message = ([], None)"
      by (simp add: on_message_body_def Let_def)
    then show "on_message run loads (snd ?r) message = (snd ?r, None)"
      by (simp add: on_message_def)
  qed
  have noop: "(\<forall>x\<in>set streams. callbacks self x = None) \<longrightarrow> callbacks (snd ?r) = callbacks self"
  proof
    assume a: "\<forall>x\<in>set streams. callbacks self x = None"
    show "callbacks (snd ?r) = callbacks self"
    proof
      fix x
      show "callbacks (snd ?r) x = callbacks self x"
        using a by (simp add: c fold_unregister_apply)
    qed
  qed
  show ?thesis using e s gone kept quiet noop by blast
qed

theorem unsubscribe_removes_entries_witness:
  "fst (unsubscribe sample_dumps
          (snd (subscribe sample_dumps 2
             (snd (subscribe sample_dumps 1 live_client [''A''] 1 False))
             [''A''] 2 False))
          [''A'', ''B'']) = None
   \<and> sent (snd (unsubscribe sample_dumps
          (snd (subscribe sample_dumps 2
             (snd (subscribe sample_dumps 1 live_client [''A''] 1 False))
             [''A''] 2 False))
          [''A'', ''B''])) = [(0, ''SUBSCRIBE''), (0, ''SUBSCRIBE''), (0, ''UNSUBSCRIBE'')]
   \<and> callbacks (snd (unsubscribe sample_dumps
          (snd (subscribe sample_dumps 2
             (snd (subscribe sample_dumps 1 live_client [''A''] 1 False))
             [''A''] 2 False))
          [''A'', ''B''])) ''A'' = None
   \<and> invoked (fst (on_message all_return
          (map_of [(''frame'', JObj [(''stream'', JStr ''A''), (''data'', JInt 7)])])
          (snd (unsubscribe sample_dumps
             (snd (subscribe sample_dumps 2
                (snd (subscribe sample_dumps 1 live_client [''A''] 1 False))
                [''A''] 2 False))
             [''A'', ''B'']))
          ''frame'')) = []"
proof -
  let ?c = "snd (subscribe sample_dumps 2
             (snd (subscribe sample_dumps 1 live_client [''A''] 1 False))
             [''A''] 2 False)"
  have w: "ws ?c = Some 0" and l: "0 \<in> set (live ?c)"
    and s: "sent ?c = [(0, ''SUBSCRIBE''), (0, ''SUBSCRIBE'')]"
    and i: "invoked ?c = []"
    by (simp_all add: subscribe_def ws_send_def live_client_def init_def connect_def
        sample_dumps_def Let_def)
  have d: "sample_dumps (JObj [(''method'', JStr ''UNSUBSCRIBE''),
             (''params'', JArr (map JStr [''A'', ''B'']))]) = ''UNSUBSCRIBE''"
    by (simp add: sample_dumps_def)
  have u: "invoked (snd (unsubscribe sample_dumps ?c [''A'', ''B''])) = []"
    using w l i by (simp add: unsubscribe_def ws_send_def)
  show ?thesis
    using unsubscribe_removes_entries [OF w l, where dumps = sample_dumps
        and streams = "[''A'', ''B'']" and run = all_return
        and loads = "map_of [(''frame'', JObj [(''stream'', JStr ''A''), (''data'', JInt 7)])]"]
      s d u
    by simp
qed

text \<open>
  The claim as stated fails when the send is refused: a client subscribes handler 1 to
  stream A, the socket of its application object is then no longer connected, and
  \<^verbatim>\<open>unsubscribe\<close> for A raises from \<^verbatim>\<open>ws.send\<close> before the removal loop. No UNSUBSCRIBE
  was sent, the entry of A is still there, and a later frame for A calls handler 1.
\<close>

theorem unsubscribe_removes_entries_counterexample:
  "fst (unsubscribe sample_dumps
          ((snd (subscribe sample_dumps 1 live_client [''A''] 1 False))\<lparr>live := []\<rparr>)
          [''A'']) = Some WebSocketConnectionClosedException
   \<and> sent (snd (unsubscribe sample_dumps
          ((snd (subscribe sample_dumps 1 live_client [''A''] 1 False))\<lparr>live := []\<rparr>)
          [''A''])) = [(0, ''SUBSCRIBE'')]
   \<and> callbacks (snd (unsubscribe sample_dumps
          ((snd (subscribe sample_dumps 1 live_client [''A''] 1 False))\<lparr>live := []\<rparr>)
          [''A''])) ''A'' = Some [1]
   \<and> invoked (fst (on_message all_return
          (map_of [(''frame'', JObj [(''stream'', JStr ''A''), (''data'', JInt 7)])])
          (snd (unsubscribe sample_dumps
             ((snd (subscribe sample_dumps 1 live_client [''A''] 1 False))\<lparr>live := []\<rparr>)
             [''A'']))
          ''frame'')) = [(1, JInt 7)]"
  by (simp add: unsubscribe_def subscribe_def ws_send_def on_message_def on_message_body_def
      live_client_def init_def connect_def register_def sample_dumps_def all_return_def Let_def)

text \<open>
  Claim C5. A frame that does not decode as JSON, or decodes to something without a
  \<^verbatim>\<open>stream\<close> field, or whose \<^verbatim>\<open>stream\<close> value has no entry in the table, calls no
  handler and lets no exception leave \<^verbatim>\<open>on_message\<close>; the table, the application
  objects and their sockets are as before.
\<close>

theorem unroutable_frame_is_dropped:
  assumes "unroutable loads self message"
  shows "snd (on_message run loads self message) = None
    \<and> invoked (fst (on_message run loads self message)) = invoked self
    \<and> callbacks (fst (on_message run loads self message)) = callbacks self
    \<and> ws (fst (on_message run loads self message)) = ws self
    \<and> apps (fst (on_message run loads self message)) = apps self
    \<and> live (fst (on_message run loads self message)) = live self
    \<and> close_calls (fst (on_message run loads self message)) = close_calls self"
  using on_message_unroutable [OF assms, of run]
  by (auto simp: on_message_def)

theorem unroutable_frame_is_dropped_witness:
  "snd (on_message first_raises
          (map_of [(''no stream'', JObj [(''data'', JInt 7)]),
                   (''unknown stream'', JObj [(''stream'', JStr ''B''), (''data'', JInt 7)])])
          (snd (subscribe sample_dumps 1 live_client [''A''] 1 False))
          ''not json'') = None
   \<and> invoked (fst (on_message first_raises
          (map_of [(''no stream'', JObj [(''data'', JInt 7)]),
                   (''unknown stream'', JObj [(''stream'', JStr ''B''), (''data'', JInt 7)])])
          (snd (subscribe sample_dumps 1 live_client [''A''] 1 False))
          ''not json'')) = []
   \<and> snd (on_message first_raises
          (map_of [(''no stream'', JObj [(''data'', JInt 7)]),
                   (''unknown stream'', JObj [(''stream'', JStr ''B''), (''data'', JInt 7)])])
          (snd (subscribe sample_dumps 1 live_client [''A''] 1 False))
          ''no stream'') = None
   \<and> invoked (fst (on_message first_raises
          (map_of [(''no stream'', JObj [(''data'', JInt 7)]),
                   (''unknown stream'', JObj [(''stream'', JStr ''B''), (''data'', JInt 7)])])
          (snd (subscribe sample_dumps 1 live_client [''A''] 1 False))
          ''no stream'')) = []
   \<and> snd (on_message first_raises
          (map_of [(''no stream'', JObj [(''data'', JInt 7)]),
                   (''unknown stream'', JObj [(''stream'', JStr ''B''), (''data'', JInt 7)])])
          (snd (subscribe sample_dumps 1 live_client [''A''] 1 False))
          ''unknown stream'') = None
   \<and> invoked (fst (on_message first_raises
          (map_of [(''no stream'', JObj [(''data'', JInt 7)]),
                   (''unknown stream'', JObj [(''stream'', JStr ''B''), (''data'', JInt 7)])])
          (snd (subscribe sample_dumps 1 live_client [''A''] 1 False))
          ''unknown stream'')) = []"
proof -
  let ?loads = "map_of [(''no stream'', JObj [(''data'', JInt 7)]),
                   (''unknown stream'', JObj [(''stream'', JStr ''B''), (''data'', JInt 7)])]"
  let ?c = "snd (subscribe sample_dumps 1 live_client [''A''] 1 False)"
  have i: "invoked ?c = []"
    by (simp add: subscribe_invoked live_client_def init_def connect_def)
  have b: "callbacks ?c ''B'' = None"
    by (simp add: subscribe_callbacks register_apply live_client_def init_def connect_def)
  have u1: "unroutable ?loads ?c ''not json''"
    and u2: "unroutable ?loads ?c ''no stream''"
    and u3: "unroutable ?loads ?c ''unknown stream''"
    using b by (simp_all add: unroutable_def)
  show ?thesis
    using unroutable_frame_is_dropped [OF u1, of first_raises]
      unroutable_frame_is_dropped [OF u2, of first_raises]
      unroutable_frame_is_dropped [OF u3, of first_raises] i
    by simp
qed

text \<open>
  Claim C10. When a handler registered for the stream of a frame raises an
  \<^verbatim>\<open>Exception\<close>, the handlers before it have been called, the exception is caught and
  printed inside \<^verbatim>\<open>on_message\<close> (nothing leaves the callback and the client is otherwise
  unchanged, so the connection stays open), and no handler registered after it is called
  for that frame.
\<close>

theorem raising_handler_skips_later_handlers:
  assumes "loads message = Some (JObj data)"
    and "map_of data ''stream'' = Some (JStr s)"
    and "s \<noteq> []"
    and "map_of data ''data'' = Some d"
    and "callbacks self s = Some (pre @ h # post)"
    and "\<forall>g\<in>set pre. run g d = Returns"
    and "run h d = Raises e"
    and "is_Exception e"
  shows "on_message run loads self message
    = (self\<lparr>invoked := invoked self @ map (\<lambda>g. (g, d)) (pre @ [h]),
            printed := printed self @ [Error_processing_message e]\<rparr>, None)"
proof -
  have "on_message_body run loads self message = call_all run data (pre @ h # post)"
    using assms(1,2,3,5) by (simp add: on_message_routed)
  also have "\<dots> = (map (\<lambda>g. (g, d)) (pre @ [h]), Some e)"
    using assms(4,6,7) by (rule call_all_raises)
  finally show ?thesis
    using assms(8) by (simp add: on_message_def)
qed

theorem raising_handler_skips_later_handlers_witness:
  "invoked (fst (on_message first_raises
       (map_of [(''frame'', JObj [(''stream'', JStr ''A''), (''data'', JInt 7)])])
       (snd (subscribe sample_dumps 3
          (snd (subscribe sample_dumps 2
             (snd (subscribe sample_dumps 1 live_client [''A''] 0 False))
             [''A''] 1 False))
          [''A''] 2 False))
       ''frame'')) = [(0, JInt 7), (1, JInt 7)]
   \<and> printed (fst (on_message first_raises
       (map_of [(''frame'', JObj [(''stream'', JStr ''A''), (''data'', JInt 7)])])
       (snd (subscribe sample_dumps 3
          (snd (subscribe sample_dumps 2
             (snd (subscribe sample_dumps 1 live_client [''A''] 0 False))
             [''A''] 1 False))
          [''A''] 2 False))
       ''frame'')) = [Error_processing_message (UserException ''boom'')]
   \<and> snd (on_message first_raises
       (map_of [(''frame'', JObj [(''stream'', JStr ''A''), (''data'', JInt 7)])])
       (snd (subscribe sample_dumps 3
          (snd (subscribe sample_dumps 2
             (snd (subscribe sample_dumps 1 live_client [''A''] 0 False))
             [''A''] 1 False))
          [''A''] 2 False))
       ''frame'') = None"
proof -
  let ?c = "snd (subscribe sample_dumps 3
          (snd (subscribe sample_dumps 2
             (snd (subscribe sample_dumps 1 live_client [''A''] 0 False))
             [''A''] 1 False))
          [''A''] 2 False)"
  have c: "callbacks ?c ''A'' = Some ([0] @ 1 # [2])"
    by (simp add: subscribe_callbacks register_apply live_client_def init_def connect_def)
  have i: "invoked ?c = []" and p: "printed ?c = []"
    by (simp_all add: subscribe_def ws_send_def live_client_def init_def connect_def Let_def)
  have l: "map_of [(''frame'', JObj [(''stream'', JStr ''A''), (''data'', JInt 7)])] ''frame''
      = Some (JObj [(''stream'', JStr ''A''), (''data'', JInt 7)])"
    and st: "map_of [(''stream'', JStr ''A''), (''data'', JInt 7)] ''stream'' = Some (JStr ''A'')"
    and ne: "''A'' \<noteq> []"
    and da: "map_of [(''stream'', JStr ''A''), (''data'', JInt 7)] ''data'' = Some (JInt 7)"
    and pr: "\<forall>g\<in>set [0]. first_raises g (JInt 7) = Returns"
    and ra: "first_raises 1 (JInt 7) = Raises (UserException ''boom'')"
    and ex: "is_Exception (UserException ''boom'')"
    by (simp_all add: first_raises_def)
  show ?thesis
    using raising_handler_skips_later_handlers [where run = first_raises and self = ?c
        and loads = "map_of [(''frame'', JObj [(''stream'', JStr ''A''), (''data'', JInt 7)])]"
        and message = "''frame''" and data = "[(''stream'', JStr ''A''), (''data'', JInt 7)]"
        and s = "''A''" and d = "JInt 7" and pre = "[0]" and h = 1 and post = "[2]"
        and e = "UserException ''boom''"]
      l st ne da c pr ra ex i p
    by simp
qed

subsection \<open>The signer\<close>

text \<open>
  Claim C7, evaluated on the code. When both keys are configured, \<^verbatim>\<open>_generate_signature\<close>
  builds the string to sign and then raises \<^verbatim>\<open>AttributeError\<close>, for every list of
  streams, timestamp and window: the method \<^verbatim>\<open>_sign_message\<close> it calls does not exist, so
  no dict of four entries is ever returned, and a private \<^verbatim>\<open>subscribe\<close> on such a client
  raises the same error and sends nothing. When a key is missing the empty dict is
  returned and nothing is raised.
\<close>

theorem generate_signature_raises_with_credentials:
  "(has_credentials self \<longrightarrow>
      generate_signature self streams ts w = Inl AttributeError
      \<and> fst (subscribe dumps now self streams callback True) = Some AttributeError
      \<and> sent (snd (subscribe dumps now self streams callback True)) = sent self)
   \<and> (\<not> has_credentials self \<longrightarrow> generate_signature self streams ts w = Inr [])"
  by (simp add: generate_signature_def lookup_sign_message_def has_credentials_def
      subscribe_def Let_def)

theorem generate_signature_raises_with_credentials_witness:
  "has_credentials (init (Some ''key'') (Some ''secret''))
   \<and> generate_signature (init (Some ''key'') (Some ''secret''))
        [''account.orderUpdate''] 1700000000000 5000 = Inl AttributeError
   \<and> fst (subscribe sample_dumps 1700000000000 (init (Some ''key'') (Some ''secret''))
        [''account.orderUpdate''] 1 True) = Some AttributeError
   \<and> generate_signature (init None (Some ''secret''))
        [''account.orderUpdate''] 1700000000000 5000 = Inr []"
proof -
  have h: "has_credentials (init (Some ''key'') (Some ''secret''))"
    and n: "\<not> has_credentials (init None (Some ''secret''))"
    by (simp_all add: has_credentials_def init_def connect_def truthy_str_def)
  show ?thesis
    using h n
      generate_signature_raises_with_credentials [where self = "init (Some ''key'') (Some ''secret'')"
        and streams = "[''account.orderUpdate'']" and ts = 1700000000000 and w = 5000
        and dumps = sample_dumps and now = 1700000000000 and callback = 1]
      generate_signature_raises_with_credentials [where self = "init None (Some ''secret'')"
        and streams = "[''account.orderUpdate'']" and ts = 1700000000000 and w = 5000]
    by simp
qed

subsection \<open>A private subscription without credentials\<close>

text \<open>
  Claim C2. On a client with no api key or no secret key, \<^verbatim>\<open>subscribe\<close> with
  \<^verbatim>\<open>is_private=True\<close> raises to its caller (the \<^verbatim>\<open>KeyError\<close> of
  \<^verbatim>\<open>auth_data["api-key"]\<close>) before \<^verbatim>\<open>ws.send\<close> is reached: nothing is sent, so no
  message with an empty signature field goes out.
\<close>

theorem private_subscribe_without_credentials:
  assumes "\<not> has_credentials self"
  shows "fst (subscribe dumps now self streams callback True) = Some (KeyError ''api-key'')
    \<and> sent (snd (subscribe dumps now self streams callback True)) = sent self"
  using assms
  by (simp add: subscribe_def Let_def generate_signature_def has_credentials_def getitem_def)

theorem private_subscribe_without_credentials_witness:
  "\<not> has_credentials live_client
   \<and> fst (subscribe sample_dumps 1700000000000 live_client
          [''account.orderUpdate''] 1 True) = Some (KeyError ''api-key'')
   \<and> sent (snd (subscribe sample_dumps 1700000000000 live_client
          [''account.orderUpdate''] 1 True)) = []"
proof -
  have h: "\<not> has_credentials live_client"
    by (simp add: has_credentials_def live_client_def init_def connect_def truthy_str_def)
  have s: "sent live_client = []"
    by (simp add: live_client_def init_def connect_def)
  show ?thesis
    using h private_subscribe_without_credentials [OF h, of sample_dumps
        1700000000000 "[''account.orderUpdate'']" 1] s
    by simp
qed

text \<open>
  Claim C9. When that private subscription fails, the callback table has already been
  changed: the handler was appended to the list of every listed stream (once per
  occurrence in the list), the other streams keep their lists, nothing was sent, and for a
  non-empty list of streams the table differs from the one before the call.
\<close>

theorem failed_private_subscribe_mutates_registry:
  assumes "\<not> has_credentials self"
  shows "fst (subscribe dumps now self streams callback True) = Some (KeyError ''api-key'')
    \<and> sent (snd (subscribe dumps now self streams callback True)) = sent self
    \<and> (\<forall>x\<in>set streams.
          callbacks (snd (subscribe dumps now self streams callback True)) x
            = Some (handlers_of self x @ replicate (count_list streams x) callback))
    \<and> (\<forall>x. x \<notin> set streams \<longrightarrow>
          callbacks (snd (subscribe dumps now self streams callback True)) x
            = callbacks self x)
    \<and> (streams \<noteq> [] \<longrightarrow>
          callbacks (snd (subscribe dumps now self streams callback True))
            \<noteq> callbacks self)"
proof -
  let ?r = "subscribe dumps now self streams callback True"
  have e: "fst ?r = Some (KeyError ''api-key'')" and s: "sent (snd ?r) = sent self"
    using assms
    by (simp_all add: subscribe_def Let_def generate_signature_def has_credentials_def getitem_def)
  have c: "callbacks (snd ?r) = fold (register callback) streams (callbacks self)"
    by (rule subscribe_callbacks)
  have inl: "\<forall>x\<in>set streams. callbacks (snd ?r) x
       = Some (handlers_of self x @ replicate (count_list streams x) callback)"
    by (simp add: c fold_register_apply handlers_of_def)
  have outl: "\<forall>x. x \<notin> set streams \<longrightarrow> callbacks (snd ?r) x = callbacks self x"
    by (simp add: c fold_register_apply)
  have ne: "streams \<noteq> [] \<longrightarrow> callbacks (snd ?r) \<noteq> callbacks self"
  proof
    assume "streams \<noteq> []"
    then obtain x where x: "x \<in> set streams" by (cases streams) auto
    then have pos: "0 < count_list streams x" by (induction streams) auto
    have "callbacks (snd ?r) x = Some (handlers_of self x @ replicate (count_list streams x) callback)"
      using inl x by blast
    moreover have "callbacks self x \<noteq> Some (handlers_of self x @ replicate (count_list streams x) callback)"
      using pos by (auto simp: handlers_of_def split: option.splits)
    ultimately show "callbacks (snd ?r) \<noteq> callbacks self" by metis
  qed
  show ?thesis using e s inl outl ne by blast
qed

theorem failed_private_subscribe_mutates_registry_witness:
  "\<not> has_credentials live_client
   \<and> fst (subscribe sample_dumps 1700000000000 live_client
          [''account.orderUpdate''] 1 True) = Some (KeyError ''api-key'')
   \<and> sent (snd (subscribe sample_dumps 1700000000000 live_client
          [''account.orderUpdate''] 1 True)) = []
   \<and> callbacks (snd (subscribe sample_dumps 1700000000000 live_client
          [''account.orderUpdate''] 1 True)) ''account.orderUpdate'' = Some [1]
   \<and> callbacks (snd (subscribe sample_dumps 1700000000000 live_client
          [''account.orderUpdate''] 1 True)) \<noteq> callbacks live_client"
proof -
  have h: "\<not> has_credentials live_client"
    by (simp add: has_credentials_def live_client_def init_def connect_def truthy_str_def)
  have s: "handlers_of live_client ''account.orderUpdate'' = []"
    and t: "sent live_client = []"
    by (simp_all add: live_client_def init_def connect_def handlers_of_def)
  show ?thesis
    using h failed_private_subscribe_mutates_registry [OF h, of sample_dumps
        1700000000000 "[''account.orderUpdate'']" 1] s t
    by simp
qed

end
